theory Spec2Isabelle
  imports Main "HOL-Library.Sublist"
begin

section \<open>Python strings\<close>

text \<open>
  A Python \<open>str\<close> is modelled as a HOL \<open>string\<close>, one \<open>char\<close> per code point, so the
  model covers text whose code points lie in U+0000..U+00FF. \<open>len\<close> is \<open>length\<close>, the slice
  \<open>s[:n]\<close> is \<open>take n s\<close>, \<open>a in b\<close> on two strings is \<open>sublist a b\<close>.
\<close>

definition SQ :: char where
  "SQ = CHR 0x27"

definition DQ :: char where
  "DQ = CHR 0x22"

definition BSL :: char where
  "BSL = CHR 0x5C"

text \<open>\<open>str.isspace\<close> on one character, as \<open>str.strip()\<close> uses it (code points below 256).\<close>

definition py_isspace :: "char \<Rightarrow> bool" where
  "py_isspace c =
     (let n = (of_char c :: nat)
      in (9 \<le> n \<and> n \<le> 13) \<or> (28 \<le> n \<and> n \<le> 32) \<or> n = 133 \<or> n = 160)"

definition strip :: "string \<Rightarrow> string" where
  "strip s = rev (dropWhile py_isspace (rev (dropWhile py_isspace s)))"

text \<open>The recurring test \<open>not s or not s.strip()\<close> on a \<open>str\<close>.\<close>

definition blank :: "string \<Rightarrow> bool" where
  "blank s = (s = [] \<or> strip s = [])"

definition digit_char :: "nat \<Rightarrow> char" where
  "digit_char d = char_of (48 + d)"

text \<open>\<open>str(n)\<close> for a natural number, in decimal.\<close>

function string_of_nat :: "nat \<Rightarrow> string" where
  "string_of_nat n =
     (if n < 10 then [digit_char n] else string_of_nat (n div 10) @ [digit_char (n mod 10)])"
  by pat_completeness auto
termination
  by (relation "measure id") auto

declare string_of_nat.simps [simp del]

definition string_of_int :: "int \<Rightarrow> string" where
  "string_of_int i = (if i < 0 then CHR ''-'' # string_of_nat (nat (- i)) else string_of_nat (nat i))"

definition hex_digit :: "nat \<Rightarrow> char" where
  "hex_digit d = (if d < 10 then char_of (48 + d) else char_of (87 + d))"

definition py_isprintable :: "char \<Rightarrow> bool" where
  "py_isprintable c =
     (let n = (of_char c :: nat)
      in (32 \<le> n \<and> n < 127) \<or> (161 \<le> n \<and> n \<noteq> 173))"

definition repr_char :: "char \<Rightarrow> char \<Rightarrow> string" where
  "repr_char q c =
     (if c = q \<or> c = BSL then [BSL, c]
      else if c = CHR 0x09 then [BSL, CHR ''t'']
      else if c = CHR 0x0A then [BSL, CHR ''n'']
      else if c = CHR 0x0D then [BSL, CHR ''r'']
      else if \<not> py_isprintable c
        then [BSL, CHR ''x'', hex_digit (of_char c div 16), hex_digit (of_char c mod 16)]
      else [c])"

text \<open>\<open>repr(s)\<close> of a \<open>str\<close>: single quotes, unless \<open>s\<close> holds a single and no double quote.\<close>

definition py_repr_str :: "string \<Rightarrow> string" where
  "py_repr_str s =
     (let q = (if SQ \<in> set s \<and> DQ \<notin> set s then DQ else SQ)
      in [q] @ concat (map (repr_char q) s) @ [q])"

fun join :: "string \<Rightarrow> string list \<Rightarrow> string" where
  "join sep [] = []"
| "join sep [x] = x"
| "join sep (x # y # ys) = x @ sep @ join sep (y # ys)"

text \<open>\<open>str(xs)\<close> of a list of \<open>str\<close>, and of a \<open>dict\<close> from \<open>str\<close> to \<open>str\<close>.\<close>

definition py_repr_list :: "string list \<Rightarrow> string" where
  "py_repr_list xs = ''['' @ join '', '' (map py_repr_str xs) @ '']''"

definition py_repr_dict :: "(string \<times> string) list \<Rightarrow> string" where
  "py_repr_dict d =
     ''{'' @ join '', '' (map (\<lambda>(k, v). py_repr_str k @ '': '' @ py_repr_str v) d) @ ''}''"

text \<open>
  \<open>xs[i]\<close> on a list: a negative index counts from the end, and an index out of range
  raises \<open>IndexError\<close> (the \<open>None\<close> here).
\<close>

definition py_getitem :: "'a list \<Rightarrow> int \<Rightarrow> 'a option" where
  "py_getitem xs i =
     (if 0 \<le> i \<and> i < int (length xs) then Some (xs ! nat i)
      else if i < 0 \<and> - int (length xs) \<le> i then Some (xs ! nat (int (length xs) + i))
      else None)"

section \<open>Exceptions\<close>

text \<open>
  The exception classes of \<open>compatible_client_api.py\<close>, the built-in ones the code raises,
  and those of its libraries: \<open>JSONDecodeError\<close> (from \<open>Response.json()\<close>) and pydantic's
  \<open>ValidationError\<close> (from \<open>model_validate\<close>), both subclasses of \<open>ValueError\<close>;
  \<open>ExternalError\<close> stands for any other exception of a library (network, SDK).
  An exception carries the one argument it was built with.
\<close>

datatype exn_class =
    ValueError | KeyError | IndexError | AttributeError
  | APIClientError | UnsupportedAPITypeError | InvalidParameterError | ResponseConversionError
  | JSONDecodeError | ValidationError | ExternalError

datatype exn = Exn (cls: exn_class) (arg: string)

text \<open>\<open>isinstance(e, APIClientError)\<close> and \<open>isinstance(e, ValueError)\<close>.\<close>

definition is_APIClientError :: "exn \<Rightarrow> bool" where
  "is_APIClientError e =
     (cls e \<in> {APIClientError, UnsupportedAPITypeError, InvalidParameterError, ResponseConversionError})"

definition is_ValueError :: "exn \<Rightarrow> bool" where
  "is_ValueError e = (cls e \<in> {ValueError, JSONDecodeError, ValidationError})"

text \<open>\<open>str(e)\<close>, the text an f-string puts for \<open>{e}\<close>: a \<open>KeyError\<close> shows the repr of its key.\<close>

definition str_exn :: "exn \<Rightarrow> string" where
  "str_exn e = (if cls e = KeyError then py_repr_str (arg e) else arg e)"

section \<open>Configuration files\<close>

text \<open>
  \<open>ProvidersConfigParams\<close> is a \<open>TypedDict\<close> with \<open>total=False\<close>: any of its six keys may be
  missing. A configuration is the list of its entries in the order of the JSON object,
  each entry typed as the \<open>TypedDict\<close> declares it. Dictionaries from \<open>str\<close> are association
  lists in insertion order, read with \<open>map_of\<close>.
\<close>

datatype provider_attr =
    Config_name string
  | Model_url string
  | Model_name string
  | Init_config_msg string
  | Api_supported "string list"
  | Api_endpoints "(string \<times> string) list"

fun attr_key :: "provider_attr \<Rightarrow> string" where
  "attr_key (Config_name _) = ''config_name''"
| "attr_key (Model_url _) = ''model_url''"
| "attr_key (Model_name _) = ''model_name''"
| "attr_key (Init_config_msg _) = ''init_config_msg''"
| "attr_key (Api_supported _) = ''api_supported''"
| "attr_key (Api_endpoints _) = ''api_endpoints''"

text \<open>\<open>str(value)\<close> of an entry's value.\<close>

fun attr_str :: "provider_attr \<Rightarrow> string" where
  "attr_str (Config_name s) = s"
| "attr_str (Model_url s) = s"
| "attr_str (Model_name s) = s"
| "attr_str (Init_config_msg s) = s"
| "attr_str (Api_supported xs) = py_repr_list xs"
| "attr_str (Api_endpoints d) = py_repr_dict d"

type_synonym providers_config_params = "provider_attr list"
type_synonym providers_config_list = "providers_config_params list"
type_synonym providers_file = "(string \<times> providers_config_list) list"
type_synonym secrets_config = "(string \<times> string) list"

text \<open>\<open>provider_config[key]\<close> and \<open>key in provider_config\<close>.\<close>

definition config_get :: "providers_config_params \<Rightarrow> string \<Rightarrow> provider_attr option" where
  "config_get provider_config key = find (\<lambda>a. attr_key a = key) provider_config"

text \<open>
  The environment of a run: what the cached loaders of \<open>_utils/config_loaders.py\<close> return
  (the file's content, or the \<open>ValueError\<close> they raise for a missing or malformed file),
  and \<open>PROVIDER_NAMES\<close>, which \<open>types/providers_types.py\<close> computes at import time.
\<close>

record env =
  load_providers_file :: "exn + providers_file"
  load_secrets_config :: "exn + secrets_config"
  PROVIDER_NAMES :: "string list"

definition is_valid_provider_name :: "env \<Rightarrow> string \<Rightarrow> bool" where
  "is_valid_provider_name E provider_name = (provider_name \<in> set (PROVIDER_NAMES E))"

section \<open>\<open>ProvidersConfigHandler\<close>\<close>

definition available_providers :: "env \<Rightarrow> exn + string list" where
  "available_providers E =
     (case load_providers_file E of
        Inl e \<Rightarrow> Inl e
      | Inr providers_file \<Rightarrow> Inr (map fst providers_file))"

definition provider_not_found :: "string \<Rightarrow> string list \<Rightarrow> exn" where
  "provider_not_found provider available =
     Exn ValueError (''Provider '' @ [DQ] @ provider @ [DQ] @ '' not found. Available: ''
                     @ py_repr_list available)"

definition available_provider_configs :: "env \<Rightarrow> string \<Rightarrow> exn + providers_config_list" where
  "available_provider_configs E provider =
     (case load_providers_file E of
        Inl e \<Rightarrow> Inl e
      | Inr providers_file \<Rightarrow>
          (case map_of providers_file provider of
             None \<Rightarrow> Inl (provider_not_found provider (map fst providers_file))
           | Some configs \<Rightarrow> Inr configs))"

definition get_provider_config :: "env \<Rightarrow> string \<Rightarrow> int \<Rightarrow> exn + providers_config_params" where
  "get_provider_config E provider config_index =
     (case load_providers_file E of
        Inl e \<Rightarrow> Inl e
      | Inr providers_file \<Rightarrow>
          (case map_of providers_file provider of
             None \<Rightarrow> Inl (provider_not_found provider (map fst providers_file))
           | Some provider_configs_list \<Rightarrow>
               if config_index \<ge> int (length provider_configs_list)
               then Inl (Exn ValueError
                      (''Index '' @ string_of_int config_index @ '' out of range for provider ''
                       @ [DQ] @ provider @ [DQ] @ '' (max: ''
                       @ string_of_int (int (length provider_configs_list) - 1) @ '')''))
               else (case py_getitem provider_configs_list config_index of
                       None \<Rightarrow> Inl (Exn IndexError ''list index out of range'')
                     | Some c \<Rightarrow> Inr c)))"

definition get_provider_config_attribute :: "env \<Rightarrow> string \<Rightarrow> string \<Rightarrow> int \<Rightarrow> exn + string" where
  "get_provider_config_attribute E provider attribute config_index =
     (case get_provider_config E provider config_index of
        Inl e \<Rightarrow> Inl e
      | Inr provider_config \<Rightarrow>
          (case config_get provider_config attribute of
             None \<Rightarrow> Inl (Exn ValueError
                      (''Attribute '' @ [DQ] @ attribute @ [DQ] @ '' not found for provider ''
                       @ [DQ] @ provider @ [DQ] @ ''. Available: ''
                       @ py_repr_list (map attr_key provider_config)))
           | Some a \<Rightarrow> Inr (attr_str a)))"

text \<open>\<open>provider_config.get('api_supported', [])\<close>: a missing key gives the empty list.\<close>

definition get_provider_api_supported :: "env \<Rightarrow> string \<Rightarrow> int \<Rightarrow> exn + string list" where
  "get_provider_api_supported E provider config_index =
     (case get_provider_config E provider config_index of
        Inl e \<Rightarrow> Inl e
      | Inr provider_config \<Rightarrow>
          (case config_get provider_config ''api_supported'' of
             Some (Api_supported xs) \<Rightarrow> Inr xs
           | _ \<Rightarrow> Inr []))"

text \<open>\<open>provider_config['api_endpoints']\<close> raises \<open>KeyError\<close> when the key is missing.\<close>

definition get_provider_endpoint :: "env \<Rightarrow> string \<Rightarrow> string \<Rightarrow> int \<Rightarrow> exn + string" where
  "get_provider_endpoint E provider endpoint_type config_index =
     (case get_provider_config E provider config_index of
        Inl e \<Rightarrow> Inl e
      | Inr provider_config \<Rightarrow>
          (case config_get provider_config ''api_endpoints'' of
             Some (Api_endpoints endpoints) \<Rightarrow>
               (case map_of endpoints endpoint_type of
                  None \<Rightarrow> Inl (Exn ValueError
                           (''Endpoint type '' @ [DQ] @ endpoint_type @ [DQ]
                            @ '' not found for provider '' @ [DQ] @ provider @ [DQ]
                            @ ''. Available: '' @ py_repr_list (map fst endpoints)))
                | Some url \<Rightarrow> Inr url)
           | _ \<Rightarrow> Inl (Exn KeyError ''api_endpoints'')))"

section \<open>\<open>auth_keys\<close>\<close>

text \<open>
  The two private helpers \<open>_get_api_key_from_config_index\<close> and
  \<open>_get_api_key_from_config_name\<close> are written without the leading underscore.
  \<open>secret_file_conf[api_key_ref]\<close> raises \<open>KeyError\<close> with the key as its argument.
\<close>

definition get_api_key_from_config_index :: "env \<Rightarrow> string \<Rightarrow> int \<Rightarrow> exn + string" where
  "get_api_key_from_config_index E provider config_index =
     (case get_provider_config_attribute E provider ''config_name'' config_index of
        Inl e \<Rightarrow> Inl e
      | Inr api_key_ref \<Rightarrow>
          (case load_secrets_config E of
             Inl e \<Rightarrow> Inl e
           | Inr secret_file_conf \<Rightarrow>
               (case map_of secret_file_conf api_key_ref of
                  None \<Rightarrow> Inl (Exn KeyError api_key_ref)
                | Some key \<Rightarrow> Inr key)))"

definition get_api_key_from_config_name :: "env \<Rightarrow> string \<Rightarrow> string \<Rightarrow> exn + string" where
  "get_api_key_from_config_name E provider config_name =
     (case load_secrets_config E of
        Inl e \<Rightarrow> Inl e
      | Inr secret_file_conf \<Rightarrow>
          (case map_of secret_file_conf config_name of
             Some key \<Rightarrow> Inr key
           | None \<Rightarrow> Inl (Exn ValueError
                      (''No API key found for '' @ provider @ '' with config name '' @ config_name))))"

definition get_secret_api_key :: "env \<Rightarrow> string \<Rightarrow> string option \<Rightarrow> int \<Rightarrow> exn + string" where
  "get_secret_api_key E provider config_name config_index =
     (case config_name of
        None \<Rightarrow> get_api_key_from_config_index E provider config_index
      | Some name \<Rightarrow> get_api_key_from_config_name E provider name)"

section \<open>Chat types (\<open>types/chat_response.py\<close>)\<close>

datatype message_role = System | User | Assistant

record chat_message =
  role :: message_role
  content :: "string option"
  name :: "string option"

definition create_message :: "message_role \<Rightarrow> string option \<Rightarrow> string option \<Rightarrow> chat_message" where
  "create_message r c n = \<lparr>role = r, content = c, name = n\<rparr>"

record chat_choice =
  index :: int
  message :: chat_message
  finish_reason :: "string option"
  delta :: "chat_message option"

record chat_usage =
  prompt_tokens :: "int option"
  completion_tokens :: "int option"
  total_tokens :: "int option"

text \<open>The field \<open>id\<close> of the source is \<open>completion_id\<close> here (\<open>id\<close> is a constant of HOL).\<close>

record chat_completion_response =
  completion_id :: "string option"
  object :: "string option"
  created :: "int option"
  model :: "string option"
  choices :: "chat_choice list option"
  usage :: "chat_usage option"
  system_fingerprint :: "string option"

definition get_content :: "chat_completion_response \<Rightarrow> string option" where
  "get_content r =
     (case choices r of
        Some (c # cs) \<Rightarrow> content (message c)
      | _ \<Rightarrow> None)"

section \<open>The outside world\<close>

text \<open>
  A parsed JSON document as Python holds it (numbers with a fraction are left out).
  \<open>py_repr_json\<close> is \<open>repr\<close> and \<open>py_str_json\<close> is \<open>str\<close> on such a value.
\<close>

datatype json_value =
    JNull | JBool bool | JInt int | JStr string
  | JArr "json_value list" | JObj "(string \<times> json_value) list"

fun py_repr_json :: "json_value \<Rightarrow> string" where
  "py_repr_json JNull = ''None''"
| "py_repr_json (JBool b) = (if b then ''True'' else ''False'')"
| "py_repr_json (JInt i) = string_of_int i"
| "py_repr_json (JStr s) = py_repr_str s"
| "py_repr_json (JArr xs) = ''['' @ join '', '' (map py_repr_json xs) @ '']''"
| "py_repr_json (JObj d) =
     ''{'' @ join '', '' (map (\<lambda>(k, v). py_repr_str k @ '': '' @ py_repr_json v) d) @ ''}''"

definition py_str_json :: "json_value \<Rightarrow> string" where
  "py_str_json v = (case v of JStr s \<Rightarrow> s | _ \<Rightarrow> py_repr_json v)"

definition py_type_name :: "json_value \<Rightarrow> string" where
  "py_type_name v =
     (case v of JNull \<Rightarrow> ''NoneType'' | JBool _ \<Rightarrow> ''bool'' | JInt _ \<Rightarrow> ''int''
      | JStr _ \<Rightarrow> ''str'' | JArr _ \<Rightarrow> ''list'' | JObj _ \<Rightarrow> ''dict'')"

text \<open>
  \<open>v.get(key, default)\<close>: only a \<open>dict\<close> has the method; on any other value the attribute
  lookup raises \<open>AttributeError\<close>.
\<close>

definition py_get :: "json_value \<Rightarrow> string \<Rightarrow> json_value \<Rightarrow> exn + json_value" where
  "py_get v key dflt =
     (case v of
        JObj d \<Rightarrow> Inr (case map_of d key of None \<Rightarrow> dflt | Some x \<Rightarrow> x)
      | _ \<Rightarrow> Inl (Exn AttributeError
               ([SQ] @ py_type_name v @ [SQ] @ '' object has no attribute '' @ [SQ] @ ''get'' @ [SQ])))"

text \<open>
  A \<open>requests.Response\<close>: its status, its body as text, and what \<open>.json()\<close> gives on it
  (the parsed document, or the exception raised, a \<open>JSONDecodeError\<close>).
\<close>

record response =
  status_code :: int
  response_text :: string
  json :: "exn + json_value"

text \<open>
  What the libraries answer during one call: \<open>requests.Session.post\<close> (url, bearer key,
  messages and model of the body), the OpenAI SDK's \<open>chat.completions.create\<close> (base url,
  key, model, messages; the completion already in the package's own response type), and
  pydantic's \<open>model_validate\<close> on \<open>ChatCompletionResponse\<close>.
\<close>

record world =
  http_post :: "string \<Rightarrow> string \<Rightarrow> (message_role \<times> string option) list \<Rightarrow> string \<Rightarrow> exn + response"
  sdk_create :: "string \<Rightarrow> string \<Rightarrow> string \<Rightarrow> (message_role \<times> string) list
                 \<Rightarrow> exn + chat_completion_response"
  model_validate :: "json_value \<Rightarrow> exn + chat_completion_response"

section \<open>Transports (\<open>compatible_client_api.py\<close>)\<close>

text \<open>
  The attributes every \<open>BaseAPIClient\<close> has. \<open>close_calls\<close> is not an attribute of the
  source: it counts how often \<open>close()\<close> has run on the transport. Timeouts are seconds.
\<close>

record base_api_client =
  base_url :: string
  api_key :: string
  model_name :: string
  close_calls :: nat

record openai_compatible_client = base_api_client +
  openai_messages :: "(message_role \<times> string) list"

text \<open>\<open>session\<close> says whether \<open>_session\<close> holds a \<open>requests.Session\<close>.\<close>

record rest_api_compatible_client = base_api_client +
  connect_timeout :: int
  read_timeout :: int
  rest_messages :: "(message_role \<times> string option) list"
  session :: bool

datatype transport =
    OpenAICompatible openai_compatible_client
  | RestAPICompatible rest_api_compatible_client

text \<open>\<open>BaseAPIClient.__init__\<close>: the first empty parameter is reported.\<close>

definition base_init :: "string \<Rightarrow> string \<Rightarrow> string \<Rightarrow> exn option" where
  "base_init url key mname =
     (if blank url then Some (Exn InvalidParameterError ''base_url must be provided and non-empty'')
      else if blank key then Some (Exn InvalidParameterError ''api_key must be provided and non-empty'')
      else if blank mname
        then Some (Exn InvalidParameterError ''model_name must be provided and non-empty'')
      else None)"

datatype handler_class = OpenAICompatibleClient | RestAPICompatibleClient

text \<open>\<open>handler_class(base_url, api_key, model_name)\<close>, the two \<open>__init__\<close> methods.\<close>

definition new_transport :: "handler_class \<Rightarrow> string \<Rightarrow> string \<Rightarrow> string \<Rightarrow> exn + transport" where
  "new_transport handler url key mname =
     (case base_init url key mname of
        Some e \<Rightarrow> Inl e
      | None \<Rightarrow>
          (case handler of
             OpenAICompatibleClient \<Rightarrow>
               Inr (OpenAICompatible
                      \<lparr>base_url = url, api_key = key, model_name = mname, close_calls = 0,
                       openai_messages = []\<rparr>)
           | RestAPICompatibleClient \<Rightarrow>
               Inr (RestAPICompatible
                      \<lparr>base_url = url, api_key = key, model_name = mname, close_calls = 0,
                       connect_timeout = 30, read_timeout = 60, rest_messages = [],
                       session = False\<rparr>)))"

text \<open>
  \<open>CompatibleClientDispatcher\<close>: the class-level \<open>_registry\<close>, filled by the two
  \<open>@CompatibleClientDispatcher.register\<close> decorators, and \<open>__call__\<close>.
\<close>

type_synonym registry = "(string \<times> handler_class) list"

definition default_registry :: registry where
  "default_registry = [(''openai'', OpenAICompatibleClient), (''requests'', RestAPICompatibleClient)]"

definition dispatcher_call :: "registry \<Rightarrow> string \<Rightarrow> string \<Rightarrow> string \<Rightarrow> string \<Rightarrow> exn + transport" where
  "dispatcher_call reg key url akey mname =
     (case map_of reg key of
        Some handler \<Rightarrow> new_transport handler url akey mname
      | None \<Rightarrow> Inl (Exn UnsupportedAPITypeError (''No handler for: '' @ key)))"

subsection \<open>\<open>RestAPICompatibleClient\<close>\<close>

definition set_timeout ::
  "rest_api_compatible_client \<Rightarrow> int \<Rightarrow> int \<Rightarrow> exn + rest_api_compatible_client" where
  "set_timeout c ct rt =
     (if ct \<le> 0 then Inl (Exn ValueError ''connect_timeout must be a positive number'')
      else if rt \<le> 0 then Inl (Exn ValueError ''read_timeout must be a positive number'')
      else Inr (c\<lparr>connect_timeout := ct, read_timeout := rt, session := False\<rparr>))"

text \<open>
  \<open>error_details.get('error', {}).get('message', str(error_details))\<close>, then the text the
  f-string puts for it.
\<close>

definition error_message_of :: "json_value \<Rightarrow> exn + string" where
  "error_message_of error_details =
     (case py_get error_details ''error'' (JObj []) of
        Inl e \<Rightarrow> Inl e
      | Inr err \<Rightarrow>
          (case py_get err ''message'' (JStr (py_str_json error_details)) of
             Inl e \<Rightarrow> Inl e
           | Inr msg \<Rightarrow> Inr (py_str_json msg)))"

text \<open>The \<open>try\<close> block for status 200: \<open>self._from_dict(data=rest_response.json())\<close>.\<close>

definition parse_and_validate :: "world \<Rightarrow> response \<Rightarrow> exn + chat_completion_response" where
  "parse_and_validate W rest_response =
     (case json rest_response of
        Inl e \<Rightarrow> Inl e
      | Inr response_data \<Rightarrow> model_validate W response_data)"

text \<open>
  \<open>_convert_response\<close>. On status 200 the \<open>try\<close> block parses and validates; its first
  handler takes every \<open>ValueError\<close>, its second every other exception. On another status
  only a \<open>ValueError\<close> of the \<open>try\<close> block is handled; any other exception leaves the method.
\<close>

definition convert_response :: "world \<Rightarrow> response \<Rightarrow> exn + chat_completion_response" where
  "convert_response W rest_response =
     (if status_code rest_response = 200 then
        (case parse_and_validate W rest_response of
           Inr chat_response \<Rightarrow> Inr chat_response
         | Inl e \<Rightarrow>
             if is_ValueError e
             then Inl (Exn ResponseConversionError
                    (''Failed to parse JSON response: '' @ str_exn e @ ''. Response text: ''
                     @ take 500 (response_text rest_response)))
             else Inl (Exn ResponseConversionError
                    (''Failed to convert response to ChatCompletionResponse: '' @ str_exn e)))
      else
        (case (case json rest_response of
                 Inl e \<Rightarrow> Inl e
               | Inr error_details \<Rightarrow> error_message_of error_details) of
           Inr error_message \<Rightarrow>
             Inl (Exn APIClientError
                    (''API request failed with status '' @ string_of_int (status_code rest_response)
                     @ '': '' @ error_message))
         | Inl e \<Rightarrow>
             if is_ValueError e
             then Inl (Exn APIClientError
                    (''API request failed with status '' @ string_of_int (status_code rest_response)
                     @ '': '' @ take 500 (response_text rest_response)))
             else Inl e))"

text \<open>
  \<open>chat_completion\<close> of the REST transport: convert the messages, create the session on
  first use, post, convert the response.
\<close>

definition rest_chat_completion ::
  "world \<Rightarrow> rest_api_compatible_client \<Rightarrow> chat_message list
     \<Rightarrow> (exn + chat_completion_response) \<times> rest_api_compatible_client" where
  "rest_chat_completion W c messages =
     (let c1 = c\<lparr>rest_messages := map (\<lambda>m. (role m, content m)) messages\<rparr>;
          c2 = c1\<lparr>session := True\<rparr>
      in (case http_post W (base_url c2) (api_key c2) (rest_messages c2) (model_name c2) of
            Inl e \<Rightarrow> (Inl e, c2)
          | Inr rest_response \<Rightarrow> (convert_response W rest_response, c2)))"

subsection \<open>\<open>OpenAICompatibleClient\<close>\<close>

text \<open>\<open>_convert_messages\<close>: every role has its wire type, \<open>content or ''\<close> is sent.\<close>

definition openai_convert_messages :: "chat_message list \<Rightarrow> (message_role \<times> string) list" where
  "openai_convert_messages messages =
     map (\<lambda>m. (role m, case content m of None \<Rightarrow> [] | Some s \<Rightarrow> s)) messages"

definition openai_chat_completion ::
  "world \<Rightarrow> openai_compatible_client \<Rightarrow> chat_message list
     \<Rightarrow> (exn + chat_completion_response) \<times> openai_compatible_client" where
  "openai_chat_completion W c messages =
     (let c1 = c\<lparr>openai_messages := openai_convert_messages messages\<rparr>
      in (sdk_create W (base_url c1) (api_key c1) (model_name c1) (openai_messages c1), c1))"

subsection \<open>Both transports\<close>

definition transport_chat_completion ::
  "world \<Rightarrow> transport \<Rightarrow> chat_message list \<Rightarrow> (exn + chat_completion_response) \<times> transport" where
  "transport_chat_completion W t messages =
     (case t of
        OpenAICompatible c \<Rightarrow>
          (case openai_chat_completion W c messages of (r, c') \<Rightarrow> (r, OpenAICompatible c'))
      | RestAPICompatible c \<Rightarrow>
          (case rest_chat_completion W c messages of (r, c') \<Rightarrow> (r, RestAPICompatible c')))"

text \<open>
  \<open>close()\<close>: the OpenAI transport closes the SDK client, the REST transport closes and
  drops its session if it has one.
\<close>

definition transport_close :: "transport \<Rightarrow> transport" where
  "transport_close t =
     (case t of
        OpenAICompatible c \<Rightarrow> OpenAICompatible (c\<lparr>close_calls := Suc (close_calls c)\<rparr>)
      | RestAPICompatible c \<Rightarrow>
          RestAPICompatible (c\<lparr>close_calls := Suc (close_calls c), session := False\<rparr>))"

definition transport_close_calls :: "transport \<Rightarrow> nat" where
  "transport_close_calls t =
     (case t of OpenAICompatible c \<Rightarrow> close_calls c | RestAPICompatible c \<Rightarrow> close_calls c)"

section \<open>\<open>CompatibleClient\<close>\<close>

text \<open>
  The factory proxy. \<open>client\<close> is the attribute \<open>_client\<close>; the property \<open>client\<close> of the
  source is \<open>client_property\<close>. The attributes \<open>base_url\<close>, \<open>api_key\<close> and \<open>model_name\<close> carry
  the prefix \<open>cc_\<close> here, to keep them apart from those of the transports.
\<close>

record compatible_client =
  api_type :: string
  cc_base_url :: string
  cc_api_key :: string
  cc_model_name :: string
  dispatcher :: registry
  client :: "transport option"
  rest_timeout_config :: "(int \<times> int) option"

definition new_compatible_client ::
  "string \<Rightarrow> string \<Rightarrow> string \<Rightarrow> string \<Rightarrow> registry option \<Rightarrow> exn + compatible_client" where
  "new_compatible_client atype url mname key disp =
     (case base_init url key mname of
        Some e \<Rightarrow> Inl e
      | None \<Rightarrow>
          Inr \<lparr>api_type = atype, cc_base_url = url, cc_api_key = key, cc_model_name = mname,
               dispatcher = (case disp of None \<Rightarrow> default_registry | Some d \<Rightarrow> d),
               client = None, rest_timeout_config = None\<rparr>)"

text \<open>
  The property \<open>client\<close>: the transport is built on first use; \<open>_client\<close> is assigned before
  a stored timeout pair is applied to a REST transport, and a \<open>KeyError\<close> of the block is
  turned into \<open>UnsupportedAPITypeError\<close>.
\<close>

definition client_property :: "compatible_client \<Rightarrow> (exn + transport) \<times> compatible_client" where
  "client_property cc =
     (case client cc of
        Some t \<Rightarrow> (Inr t, cc)
      | None \<Rightarrow>
          (case (case dispatcher_call (dispatcher cc) (api_type cc) (cc_base_url cc) (cc_api_key cc)
                        (cc_model_name cc) of
                   Inl e \<Rightarrow> (Inl e, cc)
                 | Inr t \<Rightarrow>
                     (case (rest_timeout_config cc, t) of
                        (Some (ct, rt), RestAPICompatible c) \<Rightarrow>
                          (case set_timeout c ct rt of
                             Inl e \<Rightarrow> (Inl e, cc\<lparr>client := Some t\<rparr>)
                           | Inr c' \<Rightarrow>
                               (Inr (RestAPICompatible c'),
                                cc\<lparr>client := Some (RestAPICompatible c')\<rparr>))
                      | _ \<Rightarrow> (Inr t, cc\<lparr>client := Some t\<rparr>))) of
             (Inl e, cc') \<Rightarrow>
               if cls e = KeyError
               then (Inl (Exn UnsupportedAPITypeError (''Unsupported API type: '' @ api_type cc)), cc')
               else (Inl e, cc')
           | (Inr t, cc') \<Rightarrow> (Inr t, cc')))"

definition chat_completion ::
  "world \<Rightarrow> compatible_client \<Rightarrow> chat_message list
     \<Rightarrow> (exn + chat_completion_response) \<times> compatible_client" where
  "chat_completion W cc messages =
     (case client_property cc of
        (Inl e, cc') \<Rightarrow> (Inl e, cc')
      | (Inr t, cc') \<Rightarrow>
          (case transport_chat_completion W t messages of
             (r, t') \<Rightarrow> (r, cc'\<lparr>client := Some t'\<rparr>)))"

definition compatible_client_close :: "compatible_client \<Rightarrow> compatible_client" where
  "compatible_client_close cc =
     (case client cc of
        None \<Rightarrow> cc
      | Some t \<Rightarrow> cc\<lparr>client := Some (transport_close t)\<rparr>)"

definition configure_rest_timeouts ::
  "compatible_client \<Rightarrow> int \<Rightarrow> int \<Rightarrow> exn + compatible_client" where
  "configure_rest_timeouts cc ct rt =
     (case client cc of
        Some (RestAPICompatible c) \<Rightarrow>
          (case set_timeout c ct rt of
             Inl e \<Rightarrow> Inl e
           | Inr c' \<Rightarrow> Inr (cc\<lparr>client := Some (RestAPICompatible c')\<rparr>))
      | _ \<Rightarrow>
          if api_type cc = ''requests'' then Inr (cc\<lparr>rest_timeout_config := Some (ct, rt)\<rparr>)
          else Inr cc)"

section \<open>\<open>ChatClient\<close> (\<open>api_connection.py\<close>)\<close>

text \<open>
  The dictionary \<open>_connection_params\<close>. The code only ever writes these six keys, each
  with a value of one type, so the dictionary is a record of optional entries: \<open>None\<close> is
  a missing key, and \<open>{}\<close> is \<open>no_params\<close>.
\<close>

record connection_params_dict =
  provider :: "string option"
  config_index :: "int option"
  api_type :: "string option"
  endpoint_url :: "string option"
  model_name :: "string option"
  init_config_msg :: "string option"

definition no_params :: connection_params_dict where
  "no_params = \<lparr>provider = None, config_index = None, api_type = None, endpoint_url = None,
                 model_name = None, init_config_msg = None\<rparr>"

datatype param_value = PStr string | PInt int

text \<open>\<open>connection_params[key]\<close>, with \<open>None\<close> for \<open>key not in connection_params\<close>.\<close>

definition params_get :: "connection_params_dict \<Rightarrow> string \<Rightarrow> param_value option" where
  "params_get d key =
     (if key = ''provider'' then map_option PStr (provider d)
      else if key = ''config_index'' then map_option PInt (config_index d)
      else if key = ''api_type'' then map_option PStr (api_type d)
      else if key = ''endpoint_url'' then map_option PStr (endpoint_url d)
      else if key = ''model_name'' then map_option PStr (model_name d)
      else if key = ''init_config_msg'' then map_option PStr (init_config_msg d)
      else None)"

definition required :: "string list" where
  "required = [''provider'', ''config_index'', ''api_type'', ''endpoint_url'', ''model_name'',
               ''init_config_msg'']"

definition required_params :: "string list" where
  "required_params = [''api_type'', ''endpoint_url'', ''model_name'', ''init_config_msg'']"

text \<open>\<open>not v or not str(v).strip()\<close> on a value of the dictionary.\<close>

definition empty_value :: "param_value \<Rightarrow> bool" where
  "empty_value v =
     (case v of
        PStr s \<Rightarrow> s = [] \<or> strip s = []
      | PInt i \<Rightarrow> i = 0 \<or> strip (string_of_int i) = [])"

text \<open>
  \<open>printed\<close> is not an attribute of the source: it collects the lines the methods of the
  object \<open>print\<close>.
\<close>

record chat_client =
  session_id :: string
  is_closed :: bool
  secret_api_key :: string
  connection_params :: connection_params_dict
  chat_history :: "chat_message list"
  compatible_client :: "compatible_client option"
  printed :: "string list"

text \<open>
  \<open>ChatClient.__init__\<close>, as the factory calls it (the token it passes is a
  \<open>_ChatClientToken\<close>, so the first check never fails).
\<close>

definition new_chat_client :: "string \<Rightarrow> connection_params_dict \<Rightarrow> string \<Rightarrow> exn + chat_client" where
  "new_chat_client sid params secret =
     (if filter (\<lambda>k. params_get params k \<noteq> None) required = []
      then Inl (Exn InvalidParameterError ''Connection parameters cannot be empty'')
      else if blank secret
        then Inl (Exn InvalidParameterError ''Secret API key must be provided and non-empty'')
      else if blank sid
        then Inl (Exn InvalidParameterError ''Session ID must be provided and non-empty'')
      else
        (case (api_type params, endpoint_url params, model_name params, init_config_msg params) of
           (Some atype, Some url, Some mname, Some init) \<Rightarrow>
             (let empty_params =
                    filter (\<lambda>k. case params_get params k of None \<Rightarrow> False | Some v \<Rightarrow> empty_value v)
                      required_params
              in if empty_params \<noteq> []
                 then Inl (Exn InvalidParameterError
                        (''Empty values for required parameters: '' @ py_repr_list empty_params))
                 else
                   (case new_compatible_client atype url mname secret None of
                      Inl e \<Rightarrow>
                        if cls e = InvalidParameterError \<or> cls e = UnsupportedAPITypeError
                        then Inl e
                        else Inl (Exn APIClientError
                               (''Failed to initialize API client: '' @ str_exn e))
                    | Inr cc \<Rightarrow>
                        Inr \<lparr>session_id = sid, is_closed = False, secret_api_key = secret,
                             connection_params = params, chat_history = [],
                             compatible_client =
                               Some (case configure_rest_timeouts cc 30 60 of
                                       Inl e \<Rightarrow> cc
                                     | Inr cc' \<Rightarrow> cc'),
                             printed = []\<rparr>))
         | _ \<Rightarrow>
             Inl (Exn InvalidParameterError
                    (''Missing required connection parameters: ''
                     @ py_repr_list (filter (\<lambda>k. params_get params k = None) required_params)))))"

text \<open>
  \<open>send_message\<close>. The user message is appended before the transport is called; both
  \<open>except\<close> clauses print and return \<open>None\<close>.
\<close>

definition send_message ::
  "world \<Rightarrow> chat_client \<Rightarrow> string \<Rightarrow> (exn + string option) \<times> chat_client" where
  "send_message W c message_text =
     (if blank message_text
      then (Inl (Exn InvalidParameterError ''Message cannot be empty or None''), c)
      else
        (case compatible_client c of
           None \<Rightarrow> (Inl (Exn APIClientError ''API connection not established''), c)
         | Some cc \<Rightarrow>
             (let user_message = create_message User (Some message_text) None;
                  c1 = c\<lparr>chat_history := chat_history c @ [user_message]\<rparr>
              in (case chat_completion W cc (chat_history c1) of
                    (Inl e, cc') \<Rightarrow>
                      (Inr None,
                       c1\<lparr>compatible_client := Some cc',
                          printed := printed c1 @
                            [(if is_APIClientError e then ''API error sending message: ''
                              else ''Unexpected error sending message: '') @ str_exn e]\<rparr>)
                  | (Inr response, cc') \<Rightarrow>
                      (let response_content = get_content response;
                           c2 = c1\<lparr>compatible_client := Some cc'\<rparr>
                       in (case response_content of
                             None \<Rightarrow> (Inr None, c2)
                           | Some s \<Rightarrow>
                               if s \<noteq> []
                               then (Inr (Some s),
                                     c2\<lparr>chat_history := chat_history c2 @
                                          [create_message Assistant (Some s) None]\<rparr>)
                               else (Inr (Some s), c2)))))))"

definition clear_chat_history :: "chat_client \<Rightarrow> (exn + unit) \<times> chat_client" where
  "clear_chat_history c =
     (case compatible_client c of
        None \<Rightarrow> (Inl (Exn APIClientError ''No API connection established''), c)
      | Some cc \<Rightarrow>
          (case init_config_msg (connection_params c) of
             None \<Rightarrow>
               (Inl (Exn APIClientError
                       (''Missing configuration parameter: ''
                        @ str_exn (Exn KeyError ''init_config_msg''))), c)
           | Some init \<Rightarrow>
               (let init_config_text_msg =
                      (if init = [] then ''You are a helpful AI assistant.'' else init)
                in (Inr (),
                    c\<lparr>chat_history := [create_message User (Some init_config_text_msg) None]\<rparr>))))"

definition close :: "chat_client \<Rightarrow> chat_client" where
  "close c =
     (if \<not> is_closed c
      then c\<lparr>compatible_client := map_option compatible_client_close (compatible_client c),
             chat_history := [],
             printed := printed c @ [''Closing ChatClient session: '' @ session_id c],
             is_closed := True\<rparr>
      else c)"

text \<open>How often \<open>close()\<close> has run on the transport bound to the session.\<close>

definition session_close_calls :: "chat_client \<Rightarrow> nat" where
  "session_close_calls c =
     (case compatible_client c of
        None \<Rightarrow> 0
      | Some cc \<Rightarrow> (case client cc of None \<Rightarrow> 0 | Some t \<Rightarrow> transport_close_calls t))"

text \<open>
  What a caller can do with a session it holds: the three public methods that change
  it. \<open>run\<close> applies a sequence of such calls, each \<open>send_message\<close> in the world of its
  moment; results and exceptions of the calls are dropped, the session's state is kept.
\<close>

datatype session_op = Send_message world string | Clear_chat_history | Close

fun apply_op :: "chat_client \<Rightarrow> session_op \<Rightarrow> chat_client" where
  "apply_op c (Send_message W message_text) = snd (send_message W c message_text)"
| "apply_op c Clear_chat_history = snd (clear_chat_history c)"
| "apply_op c Close = close c"

definition run :: "chat_client \<Rightarrow> session_op list \<Rightarrow> chat_client" where
  "run c ops = foldl apply_op c ops"

section \<open>\<open>APIConnectionManager\<close>\<close>

text \<open>
  The attributes \<open>_connection_params\<close> and \<open>_secret_api_key\<close> carry the prefix \<open>mgr_\<close>;
  \<open>mgr_secret_api_key = None\<close> says that the attribute has not been assigned
  (\<open>hasattr\<close> is false). The manager's list holds the clients it created; a client is a
  value here, so the list holds each client as it was when created.
\<close>

record api_connection_manager =
  active_clients :: "chat_client list"
  mgr_connection_params :: connection_params_dict
  mgr_secret_api_key :: "string option"

definition new_manager :: api_connection_manager where
  "new_manager = \<lparr>active_clients = [], mgr_connection_params = no_params,
                   mgr_secret_api_key = None\<rparr>"

text \<open>The \<open>try\<close> block of \<open>configure_api\<close>.\<close>

definition configure_api_body ::
  "env \<Rightarrow> api_connection_manager \<Rightarrow> string \<Rightarrow> int \<Rightarrow> string
     \<Rightarrow> (exn + unit) \<times> api_connection_manager" where
  "configure_api_body E m prov idx atype =
     (case available_provider_configs E prov of
        Inl e \<Rightarrow> (Inl e, m)
      | Inr provider_configs \<Rightarrow>
          if idx \<ge> int (length provider_configs)
          then (Inl (Exn InvalidParameterError
                  (''Config index '' @ string_of_int idx @ '' out of range for provider ''
                   @ [SQ] @ prov @ [SQ] @ '' (max: ''
                   @ string_of_int (int (length provider_configs) - 1) @ '')'')), m)
          else
            (case get_provider_api_supported E prov idx of
               Inl e \<Rightarrow> (Inl e, m)
             | Inr supported_apis \<Rightarrow>
                 if atype \<notin> set supported_apis
                 then (Inl (Exn InvalidParameterError
                         (''API type '' @ [SQ] @ atype @ [SQ] @ '' not supported by provider ''
                          @ [SQ] @ prov @ [SQ] @ '' config '' @ string_of_int idx
                          @ ''. Supported: '' @ py_repr_list supported_apis)), m)
                 else
                   (case get_provider_endpoint E prov atype idx of
                      Inl e \<Rightarrow> (Inl e, m)
                    | Inr url \<Rightarrow>
                   (case get_provider_config_attribute E prov ''model_name'' idx of
                      Inl e \<Rightarrow> (Inl e, m)
                    | Inr mname \<Rightarrow>
                   (case get_provider_config_attribute E prov ''init_config_msg'' idx of
                      Inl e \<Rightarrow> (Inl e, m)
                    | Inr init \<Rightarrow>
                        (let m1 = m\<lparr>mgr_connection_params :=
                                      \<lparr>provider = Some prov, config_index = Some idx,
                                       api_type = Some atype, endpoint_url = Some url,
                                       model_name = Some mname, init_config_msg = Some init\<rparr>\<rparr>
                         in (case get_secret_api_key E prov None idx of
                               Inl e \<Rightarrow> (Inl e, m1)
                             | Inr key \<Rightarrow>
                                 (let m2 = m1\<lparr>mgr_secret_api_key := Some key\<rparr>
                                  in if blank key
                                     then (Inl (Exn InvalidParameterError
                                             (''No valid API key found for provider '' @ [SQ] @ prov
                                              @ [SQ] @ '' config '' @ string_of_int idx @ ''. ''
                                              @ ''Check your environment variables or secrets configuration.'')),
                                           m2)
                                     else (Inr (), m2)))))))))"

text \<open>
  \<open>configure_api\<close>: the two checks before the \<open>try\<close> block, then the block; an exception of
  the block that is no \<open>APIClientError\<close> is wrapped into one.
\<close>

definition configure_api ::
  "env \<Rightarrow> api_connection_manager \<Rightarrow> string \<Rightarrow> int \<Rightarrow> string
     \<Rightarrow> (exn + unit) \<times> api_connection_manager" where
  "configure_api E m prov idx atype =
     (if \<not> is_valid_provider_name E prov
      then (case available_providers E of
              Inl e \<Rightarrow> (Inl e, m)
            | Inr available \<Rightarrow>
                (Inl (Exn InvalidParameterError
                   (''Invalid provider '' @ [SQ] @ prov @ [SQ] @ ''. Available: ''
                    @ py_repr_list available)), m))
      else if idx < 0
        then (Inl (Exn InvalidParameterError
                (''Config index must be >= 0, got: '' @ string_of_int idx)), m)
      else
        (case configure_api_body E m prov idx atype of
           (Inl e, m') \<Rightarrow>
             if is_APIClientError e then (Inl e, m')
             else (Inl (Exn APIClientError
                     (''Failed to configure API for provider '' @ [SQ] @ prov @ [SQ] @ '': ''
                      @ str_exn e)), m')
         | (Inr u, m') \<Rightarrow> (Inr u, m')))"

definition validate_configuration :: "api_connection_manager \<Rightarrow> bool" where
  "validate_configuration m =
     (list_all (\<lambda>param. params_get (mgr_connection_params m) param \<noteq> None) required
      \<and> mgr_secret_api_key m \<noteq> None)"

text \<open>
  \<open>create_chatclient\<close>. \<open>validate_configuration()\<close> holds exactly when the attribute
  \<open>_secret_api_key\<close> exists and the six keys are present, so the first case below is the
  branch \<open>if not self.validate_configuration()\<close> and the second reads the attribute.
\<close>

definition create_chatclient ::
  "api_connection_manager \<Rightarrow> string option \<Rightarrow> (exn + chat_client) \<times> api_connection_manager" where
  "create_chatclient m sid_opt =
     (case (if validate_configuration m then mgr_secret_api_key m else None) of
        None \<Rightarrow>
          (Inl (Exn InvalidParameterError
              (''Configuration incomplete. Missing: ''
               @ py_repr_list
                   (filter (\<lambda>param. params_get (mgr_connection_params m) param = None) required
                    @ (if mgr_secret_api_key m = None then [''secret_api_key''] else []))
               @ ''. Use configure_api() method first.'')), m)
      | Some secret \<Rightarrow>
        (case (case sid_opt of
                 None \<Rightarrow> Inr (''session_'' @ string_of_nat (length (active_clients m)))
               | Some sid \<Rightarrow>
                   if strip sid = [] then Inl (Exn InvalidParameterError ''Session ID cannot be empty'')
                   else Inr sid) of
           Inl e \<Rightarrow> (Inl e, m)
         | Inr sid \<Rightarrow>
             (case new_chat_client sid (mgr_connection_params m) secret of
                Inl e \<Rightarrow>
                  if is_APIClientError e then (Inl e, m)
                  else (Inl (Exn APIClientError
                          (''Failed to create ChatClient for provider '' @ [SQ]
                           @ (case provider (mgr_connection_params m) of
                                None \<Rightarrow> ''unknown'' | Some p \<Rightarrow> p)
                           @ [SQ] @ '': '' @ str_exn e)), m)
              | Inr new_client \<Rightarrow>
                  (Inr new_client, m\<lparr>active_clients := active_clients m @ [new_client]\<rparr>))))"


section \<open>Configurations used as examples\<close>

text \<open>
  A catalog with three providers. \<open>ACME\<close> has the configuration of the specification's
  scenario and a second one that gives only a key reference and a model name; \<open>BETA\<close> has a
  complete configuration whose key reference is not in the secrets table; \<open>GAMMA\<close> is
  served by the REST transport.
\<close>

definition demo_env :: env where
  "demo_env =
     \<lparr>load_providers_file =
        Inr [(''ACME'',
              [[Config_name ''m1_key'', Model_name ''m1'', Model_url ''http://x'',
                Init_config_msg ''hi'', Api_supported [''openai''],
                Api_endpoints [(''openai'', ''http://x/v1'')]],
               [Config_name ''m2_key'', Model_name ''m2'']]),
             (''BETA'',
              [[Config_name ''beta_key'', Model_name ''b1'', Model_url ''http://b'',
                Init_config_msg ''hello'', Api_supported [''openai'', ''requests''],
                Api_endpoints [(''openai'', ''http://b/v1''), (''requests'', ''http://b/chat'')]]]),
             (''GAMMA'',
              [[Config_name ''g_key'', Model_name ''g1'', Model_url ''http://g'',
                Init_config_msg ''Be brief.'', Api_supported [''requests''],
                Api_endpoints [(''requests'', ''http://g/chat'')]]])],
      load_secrets_config = Inr [(''m1_key'', ''sk-test''), (''g_key'', ''sk-gamma'')],
      PROVIDER_NAMES = [''ACME'', ''BETA'', ''GAMMA'']\<rparr>"

text \<open>The manager after \<open>configure_api('ACME', 0, 'openai')\<close> on a new manager.\<close>

definition acme_params :: connection_params_dict where
  "acme_params =
     \<lparr>provider = Some ''ACME'', config_index = Some 0, api_type = Some ''openai'',
      endpoint_url = Some ''http://x/v1'', model_name = Some ''m1'',
      init_config_msg = Some ''hi''\<rparr>"

definition acme_manager :: api_connection_manager where
  "acme_manager =
     \<lparr>active_clients = [], mgr_connection_params = acme_params,
      mgr_secret_api_key = Some ''sk-test''\<rparr>"


text \<open>
  The manager after \<open>configure_api('GAMMA', 0, 'requests')\<close>, the session it creates, and
  that session after one message sent in \<open>failing_world\<close> below (its transport is built).
\<close>

definition gamma_params :: connection_params_dict where
  "gamma_params =
     \<lparr>provider = Some ''GAMMA'', config_index = Some 0, api_type = Some ''requests'',
      endpoint_url = Some ''http://g/chat'', model_name = Some ''g1'',
      init_config_msg = Some ''Be brief.''\<rparr>"

definition gamma_manager :: api_connection_manager where
  "gamma_manager =
     \<lparr>active_clients = [], mgr_connection_params = gamma_params,
      mgr_secret_api_key = Some ''sk-gamma''\<rparr>"

definition gamma_session :: chat_client where
  "gamma_session =
     \<lparr>session_id = ''session_0'', is_closed = False, secret_api_key = ''sk-gamma'',
      connection_params = gamma_params, chat_history = [],
      compatible_client =
        Some \<lparr>compatible_client.api_type = ''requests'', cc_base_url = ''http://g/chat'',
              cc_api_key = ''sk-gamma'', cc_model_name = ''g1'', dispatcher = default_registry,
              client = None, rest_timeout_config = Some (30, 60)\<rparr>,
      printed = []\<rparr>"

definition built_gamma_client :: compatible_client where
  "built_gamma_client =
     \<lparr>compatible_client.api_type = ''requests'', cc_base_url = ''http://g/chat'',
      cc_api_key = ''sk-gamma'', cc_model_name = ''g1'', dispatcher = default_registry,
      client =
        Some (RestAPICompatible
                \<lparr>base_url = ''http://g/chat'', api_key = ''sk-gamma'',
                 base_api_client.model_name = ''g1'', close_calls = 0,
                 connect_timeout = 30, read_timeout = 60,
                 rest_messages = [(User, Some ''ping'')], session = True\<rparr>),
      rest_timeout_config = Some (30, 60)\<rparr>"

definition rest_session :: chat_client where
  "rest_session =
     \<lparr>session_id = ''session_0'', is_closed = False, secret_api_key = ''sk-gamma'',
      connection_params = gamma_params,
      chat_history = [create_message User (Some ''ping'') None],
      compatible_client = Some built_gamma_client,
      printed = [''API error sending message: API request failed with status 500: boom'']\<rparr>"


definition error_string_response :: response where
  "error_string_response =
     \<lparr>status_code = 500,
      response_text = ''{'' @ [DQ] @ ''error'' @ [DQ] @ '': '' @ [DQ] @ ''boom'' @ [DQ] @ ''}'',
      json = Inr (JObj [(''error'', JStr ''boom'')])\<rparr>"

definition boom_response :: response where
  "boom_response =
     \<lparr>status_code = 500,
      response_text = ''{'' @ [DQ] @ ''error'' @ [DQ] @ '': {'' @ [DQ] @ ''message'' @ [DQ] @ '': ''
                      @ [DQ] @ ''boom'' @ [DQ] @ ''}}'',
      json = Inr (JObj [(''error'', JObj [(''message'', JStr ''boom'')])])\<rparr>"

definition failing_world :: world where
  "failing_world =
     \<lparr>http_post = (\<lambda>url key messages mname. Inr boom_response),
      sdk_create = (\<lambda>url key mname messages. Inl (Exn ExternalError ''connection refused'')),
      model_validate = (\<lambda>data. Inl (Exn ValidationError ''validation error''))\<rparr>"

section \<open>The configuration store\<close>

lemma get_provider_config_valid:
  assumes "load_providers_file E = Inr pf" and "map_of pf prov = Some configs"
    and "0 \<le> idx" and "idx < int (length configs)"
  shows "get_provider_config E prov idx = Inr (configs ! nat idx)"
  using assms by (simp add: get_provider_config_def py_getitem_def)

lemma demo_catalog:
  "load_providers_file demo_env =
     Inr [(''ACME'',
              [[Config_name ''m1_key'', Model_name ''m1'', Model_url ''http://x'',
                Init_config_msg ''hi'', Api_supported [''openai''],
                Api_endpoints [(''openai'', ''http://x/v1'')]],
               [Config_name ''m2_key'', Model_name ''m2'']]),
             (''BETA'',
              [[Config_name ''beta_key'', Model_name ''b1'', Model_url ''http://b'',
                Init_config_msg ''hello'', Api_supported [''openai'', ''requests''],
                Api_endpoints [(''openai'', ''http://b/v1''), (''requests'', ''http://b/chat'')]]]),
             (''GAMMA'',
              [[Config_name ''g_key'', Model_name ''g1'', Model_url ''http://g'',
                Init_config_msg ''Be brief.'', Api_supported [''requests''],
                Api_endpoints [(''requests'', ''http://g/chat'')]]])]"
  by (simp add: demo_env_def)

lemma demo_secrets:
  "load_secrets_config demo_env = Inr [(''m1_key'', ''sk-test''), (''g_key'', ''sk-gamma'')]"
  by (simp add: demo_env_def)

text \<open>
  Claim C2, as the code has it. For a valid pair (the provider is in the loaded catalog
  and the index is within its list) \<open>get_provider_api_supported\<close> raises nothing and
  returns the list under \<open>api_supported\<close>, and the empty list when the configuration has
  no such key. The result is therefore non-empty exactly when the catalog entry names at
  least one API type.
\<close>

theorem api_supported_of_valid_pair:
  assumes "load_providers_file E = Inr pf" and "map_of pf prov = Some configs"
    and "0 \<le> idx" and "idx < int (length configs)"
  shows "get_provider_api_supported E prov idx =
           Inr (case config_get (configs ! nat idx) ''api_supported'' of
                  Some (Api_supported xs) \<Rightarrow> xs
                | _ \<Rightarrow> [])"
  using get_provider_config_valid [OF assms]
  by (simp add: get_provider_api_supported_def split: option.splits provider_attr.splits)

text \<open>Witness for C2: the first configuration of \<open>ACME\<close> supports \<open>openai\<close>.\<close>

theorem api_supported_of_valid_pair_witness:
  "get_provider_api_supported demo_env ''ACME'' 0 = Inr [''openai'']"
  using api_supported_of_valid_pair [OF demo_catalog, of "''ACME''" _ 0]
  by (simp add: config_get_def)

text \<open>
  Counterexample to C2 as stated: the second configuration of \<open>ACME\<close> is a valid pair
  without \<open>api_supported\<close>; the call returns the empty list, which is neither a non-empty
  result nor an error.
\<close>

theorem api_supported_missing_counterexample:
  "get_provider_api_supported demo_env ''ACME'' 1 = Inr []"
  by (simp add: demo_env_def get_provider_api_supported_def get_provider_config_def
      py_getitem_def config_get_def)

section \<open>Credential resolution\<close>

lemma sublist_end: "sublist k (a @ p @ b @ k)"
  by (metis append.assoc sublist_append_leftI)

lemma key_reference_resolved_first:
  assumes "get_provider_config_attribute E prov ''config_name'' idx = Inl e"
  shows "get_secret_api_key E prov None idx = Inl e"
  using assms by (simp add: get_secret_api_key_def get_api_key_from_config_index_def)

lemma key_reference_found:
  assumes "get_provider_config_attribute E prov ''config_name'' idx = Inr ref"
    and "load_secrets_config E = Inr secrets" and "map_of secrets ref = Some secret"
  shows "get_secret_api_key E prov None idx = Inr secret"
  using assms by (simp add: get_secret_api_key_def get_api_key_from_config_index_def)

text \<open>
  Claim C3, as the code has it. Let \<open>key\<close> be absent from the loaded secrets table.
  For every provider and index, resolution by the explicit name \<open>key\<close> raises \<open>ValueError\<close>
  with a message that names the key. Resolution by provider and index first reads the
  attribute \<open>config_name\<close> from the configuration store, and an error of the store is the
  result; otherwise it indexes the secrets table with the reference read, which gives the
  secret or raises \<open>KeyError\<close> carrying the reference. So when the reference is the absent
  \<open>key\<close>, the lookup raises \<open>KeyError\<close> carrying it, an exception of another class than the
  one of the explicit path.
\<close>

theorem credential_not_found:
  assumes "load_secrets_config E = Inr secrets" and "map_of secrets key = None"
  shows "get_secret_api_key E prov (Some key) idx =
           Inl (Exn ValueError (''No API key found for '' @ prov @ '' with config name '' @ key))
         \<and> sublist key (''No API key found for '' @ prov @ '' with config name '' @ key)
         \<and> get_secret_api_key E prov' None idx' =
             (case get_provider_config_attribute E prov' ''config_name'' idx' of
                Inl e \<Rightarrow> Inl e
              | Inr ref \<Rightarrow>
                  (case map_of secrets ref of
                     None \<Rightarrow> Inl (Exn KeyError ref)
                   | Some secret \<Rightarrow> Inr secret))
         \<and> (get_provider_config_attribute E prov' ''config_name'' idx' = Inr key
              \<longrightarrow> get_secret_api_key E prov' None idx' = Inl (Exn KeyError key))"
proof (intro conjI impI)
  show "get_secret_api_key E prov (Some key) idx =
           Inl (Exn ValueError (''No API key found for '' @ prov @ '' with config name '' @ key))"
    using assms by (simp add: get_secret_api_key_def get_api_key_from_config_name_def)
  show "sublist key (''No API key found for '' @ prov @ '' with config name '' @ key)"
    by (rule sublist_end)
  show "get_secret_api_key E prov' None idx' =
             (case get_provider_config_attribute E prov' ''config_name'' idx' of
                Inl e \<Rightarrow> Inl e
              | Inr ref \<Rightarrow>
                  (case map_of secrets ref of
                     None \<Rightarrow> Inl (Exn KeyError ref)
                   | Some secret \<Rightarrow> Inr secret))"
    using assms(1)
    by (simp add: get_secret_api_key_def get_api_key_from_config_index_def
        split: sum.splits option.splits)
  assume "get_provider_config_attribute E prov' ''config_name'' idx' = Inr key"
  then show "get_secret_api_key E prov' None idx' = Inl (Exn KeyError key)"
    using assms by (simp add: get_secret_api_key_def get_api_key_from_config_index_def)
qed

text \<open>
  Witness for C3: \<open>m2_key\<close> is not in the secrets table. The explicit path is taken for a
  provider the catalog does not know, the path by provider and index for the second
  configuration of \<open>ACME\<close>, which refers to \<open>m2_key\<close>.
\<close>

theorem credential_not_found_witness:
  "get_secret_api_key demo_env ''NOBODY'' (Some ''m2_key'') 7 =
     Inl (Exn ValueError (''No API key found for '' @ ''NOBODY'' @ '' with config name '' @ ''m2_key''))
   \<and> sublist ''m2_key'' (''No API key found for '' @ ''NOBODY'' @ '' with config name '' @ ''m2_key'')
   \<and> get_provider_config_attribute demo_env ''ACME'' ''config_name'' 1 = Inr ''m2_key''
   \<and> get_secret_api_key demo_env ''ACME'' None 1 = Inl (Exn KeyError ''m2_key'')"
proof -
  have absent: "map_of [(''m1_key'', ''sk-test''), (''g_key'', ''sk-gamma'')] ''m2_key'' = None"
    by simp
  have ref: "get_provider_config_attribute demo_env ''ACME'' ''config_name'' 1 = Inr ''m2_key''"
    by (simp add: demo_env_def get_provider_config_attribute_def get_provider_config_def
        py_getitem_def config_get_def)
  show ?thesis
    using credential_not_found [OF demo_secrets absent, of "''NOBODY''" 7 "''ACME''" 1] ref
    by simp
qed

text \<open>
  Counterexample to C3 as stated: for the same absent key the two paths do not fail the
  same way; the explicit path raises \<open>ValueError\<close>, the path by provider and index raises
  \<open>KeyError\<close>, which is no \<open>ValueError\<close>.
\<close>

theorem credential_not_found_counterexample:
  "cls (projl (get_secret_api_key demo_env ''ACME'' (Some ''m2_key'') 1)) = ValueError
   \<and> cls (projl (get_secret_api_key demo_env ''ACME'' None 1)) = KeyError
   \<and> \<not> is_ValueError (projl (get_secret_api_key demo_env ''ACME'' None 1))"
  by (simp add: demo_env_def get_secret_api_key_def get_api_key_from_config_name_def
      get_api_key_from_config_index_def get_provider_config_attribute_def get_provider_config_def
      py_getitem_def config_get_def is_ValueError_def)

section \<open>The dispatcher\<close>

text \<open>
  Claim C7, as the code has it. For an API type without a registered handler the
  dispatcher raises \<open>UnsupportedAPITypeError\<close>, and its message is \<open>No handler for: \<close>
  followed by the requested type; the registered types are not part of the message.
\<close>

theorem dispatcher_unknown_type:
  assumes "map_of reg key = None"
  shows "dispatcher_call reg key url akey mname =
           Inl (Exn UnsupportedAPITypeError (''No handler for: '' @ key))
         \<and> sublist key (''No handler for: '' @ key)"
proof
  show "dispatcher_call reg key url akey mname =
           Inl (Exn UnsupportedAPITypeError (''No handler for: '' @ key))"
    using assms by (simp add: dispatcher_call_def)
  show "sublist key (''No handler for: '' @ key)"
    by (rule sublist_append_leftI)
qed

text \<open>Witness for C7: \<open>huggingface_hub\<close> has no handler in the registry of the package.\<close>

theorem dispatcher_unknown_type_witness:
  "dispatcher_call default_registry ''huggingface_hub'' ''http://x'' ''sk-test'' ''m1'' =
     Inl (Exn UnsupportedAPITypeError (''No handler for: '' @ ''huggingface_hub''))
   \<and> sublist ''huggingface_hub'' (''No handler for: '' @ ''huggingface_hub'')"
proof -
  have "map_of default_registry ''huggingface_hub'' = None"
    by (simp add: default_registry_def)
  then show ?thesis
    by (rule dispatcher_unknown_type)
qed

text \<open>
  Counterexample to C7 as stated: \<open>openai\<close> is registered, and the message for the
  unregistered \<open>huggingface_hub\<close> does not contain it.
\<close>

theorem dispatcher_unknown_type_counterexample:
  "dispatcher_call default_registry ''huggingface_hub'' ''http://x'' ''sk-test'' ''m1'' =
     Inl (Exn UnsupportedAPITypeError ''No handler for: huggingface_hub'')
   \<and> map_of default_registry ''openai'' = Some OpenAICompatibleClient
   \<and> \<not> sublist ''openai'' ''No handler for: huggingface_hub''"
  by (simp add: dispatcher_call_def default_registry_def sublist_Cons_right)

section \<open>The REST transport's response conversion\<close>



lemma string_of_int_500: "string_of_int 500 = ''500''"
  by code_simp

text \<open>
  The parts of claim C8 that hold: the scenario of the specification, the message taken
  from \<open>error.message\<close>, and the raw text of a body that is no JSON.
\<close>

lemma boom_scenario:
  "convert_response W boom_response =
     Inl (Exn APIClientError ''API request failed with status 500: boom'')"
  by (simp add: convert_response_def boom_response_def error_message_of_def py_get_def
      py_str_json_def string_of_int_500)

lemma error_message_extracted:
  assumes "status_code r \<noteq> 200" and "json r = Inr (JObj d)"
    and "map_of d ''error'' = Some (JObj err)" and "map_of err ''message'' = Some (JStr msg)"
  shows "convert_response W r =
           Inl (Exn APIClientError
                  (''API request failed with status '' @ string_of_int (status_code r) @ '': ''
                   @ msg))"
  using assms by (simp add: convert_response_def error_message_of_def py_get_def py_str_json_def)

lemma non_json_error_body:
  assumes "status_code r \<noteq> 200" and "json r = Inl e" and "is_ValueError e"
  shows "convert_response W r =
           Inl (Exn APIClientError
                  (''API request failed with status '' @ string_of_int (status_code r) @ '': ''
                   @ take 500 (response_text r)))"
  using assms by (simp add: convert_response_def)

text \<open>
  Claim C8 at the failing input: status 500 with the JSON body \<open>{"error": "boom"}\<close>. The
  value under \<open>error\<close> is a string, \<open>.get('message', ...)\<close> on it raises \<open>AttributeError\<close>,
  the handler \<open>except ValueError\<close> does not take it, and it leaves \<open>_convert_response\<close>
  in place of an \<open>APIClientError\<close>.
\<close>

theorem error_body_with_string_error:
  "convert_response W error_string_response =
     Inl (Exn AttributeError
            ([SQ] @ ''str'' @ [SQ] @ '' object has no attribute '' @ [SQ] @ ''get'' @ [SQ]))"
  by (simp add: convert_response_def error_string_response_def error_message_of_def py_get_def
      py_type_name_def is_ValueError_def)

section \<open>Configuring the manager\<close>

text \<open>The example managers and sessions are what the code produces.\<close>

lemma configure_acme:
  "configure_api demo_env new_manager ''ACME'' 0 ''openai'' = (Inr (), acme_manager)"
  by code_simp


lemma configure_gamma:
  "configure_api demo_env new_manager ''GAMMA'' 0 ''requests'' = (Inr (), gamma_manager)"
  by code_simp

lemma create_gamma:
  "create_chatclient gamma_manager None =
     (Inr gamma_session, gamma_manager\<lparr>active_clients := [gamma_session]\<rparr>)"
  by code_simp

lemma send_gamma:
  "send_message failing_world gamma_session ''ping'' = (Inr None, rest_session)"
  by code_simp

text \<open>
  The part of claim C1 that holds: a call of \<open>configure_api\<close> that returns leaves the six
  keys set to the values of this call and a non-blank secret, the one the credential
  resolver gives for this provider and index, and \<open>validate_configuration\<close> is true.
\<close>

lemma configure_api_body_success:
  assumes "configure_api_body E m prov idx atype = (Inr u, m')"
  shows "\<exists>url mname init key.
           m' = m\<lparr>mgr_connection_params :=
                    \<lparr>provider = Some prov, config_index = Some idx, api_type = Some atype,
                     endpoint_url = Some url, model_name = Some mname,
                     init_config_msg = Some init\<rparr>,
                  mgr_secret_api_key := Some key\<rparr>
           \<and> \<not> blank key
           \<and> get_secret_api_key E prov None idx = Inr key"
  using assms
  by (auto simp: configure_api_body_def Let_def split: sum.splits if_splits)

lemma configure_api_success:
  assumes "configure_api E m prov idx atype = (Inr u, m')"
  shows "validate_configuration m'
         \<and> provider (mgr_connection_params m') = Some prov
         \<and> config_index (mgr_connection_params m') = Some idx
         \<and> connection_params_dict.api_type (mgr_connection_params m') = Some atype
         \<and> (\<exists>key. mgr_secret_api_key m' = Some key \<and> \<not> blank key
                  \<and> get_secret_api_key E prov None idx = Inr key)"
proof -
  from assms have "configure_api_body E m prov idx atype = (Inr u, m')"
    by (auto simp: configure_api_def split: if_splits sum.splits prod.splits)
  from configure_api_body_success [OF this] show ?thesis
    by (auto simp: validate_configuration_def required_def params_get_def)
qed

text \<open>
  Claim C1 at the failing input: the manager configured for \<open>ACME\<close> is configured again,
  for \<open>BETA\<close>, whose key reference \<open>beta_key\<close> is not in the secrets table. The call raises
  \<open>APIClientError\<close>, but the connection parameters were stored before the secret was
  resolved: the manager is left with the parameters of \<open>BETA\<close> and the secret of \<open>ACME\<close>,
  and \<open>validate_configuration\<close> is true on it.
\<close>

theorem configure_api_stale_secret:
  "configure_api demo_env acme_manager ''BETA'' 0 ''openai'' =
     (Inl (Exn APIClientError
             (''Failed to configure API for provider '' @ [SQ] @ ''BETA'' @ [SQ] @ '': ''
              @ [SQ] @ ''beta_key'' @ [SQ])),
      \<lparr>active_clients = [],
       mgr_connection_params =
         \<lparr>provider = Some ''BETA'', config_index = Some 0, api_type = Some ''openai'',
          endpoint_url = Some ''http://b/v1'', model_name = Some ''b1'',
          init_config_msg = Some ''hello''\<rparr>,
       mgr_secret_api_key = Some ''sk-test''\<rparr>)
   \<and> validate_configuration (snd (configure_api demo_env acme_manager ''BETA'' 0 ''openai''))"
  by code_simp

section \<open>Creating sessions\<close>

lemma new_chat_client_fields:
  assumes "new_chat_client sid params secret = Inr c"
  shows "session_id c = sid" and "chat_history c = []" and "\<not> is_closed c"
    and "connection_params c = params" and "compatible_client c \<noteq> None"
  using assms
  by (auto simp: new_chat_client_def Let_def split: if_splits option.splits sum.splits)

lemma create_chatclient_failure:
  assumes "create_chatclient m sid_opt = (Inl e, m')"
  shows "m' = m"
  using assms
  by (auto simp: create_chatclient_def split: option.splits sum.splits if_splits)




section \<open>The chat session\<close>

text \<open>
  A session that the constructor returns has a bound client and an init message that is
  neither empty nor blank, and no public method changes either.
\<close>

lemma new_chat_client_init:
  assumes "new_chat_client sid params secret = Inr c"
  shows "init_config_msg params \<noteq> None" and "init_config_msg params \<noteq> Some []"
proof -
  from assms obtain init where init: "init_config_msg params = Some init"
    and none_empty:
      "filter (\<lambda>k. case params_get params k of None \<Rightarrow> False | Some v \<Rightarrow> empty_value v)
         required_params = []"
    by (auto simp: new_chat_client_def Let_def split: if_splits option.splits sum.splits)
  from none_empty init have "init \<noteq> []"
    by (simp add: required_params_def params_get_def empty_value_def split: if_splits)
  with init show "init_config_msg params \<noteq> None" and "init_config_msg params \<noteq> Some []"
    by simp_all
qed

lemma apply_op_frame:
  "connection_params (apply_op c op) = connection_params c"
  "compatible_client c \<noteq> None \<Longrightarrow> compatible_client (apply_op c op) \<noteq> None"
  by (cases op;
      auto simp: send_message_def clear_chat_history_def close_def Let_def
           split: option.splits sum.splits prod.splits if_splits)+

lemma run_connection_params:
  "connection_params (run c ops) = connection_params c"
  unfolding run_def
  by (induction ops arbitrary: c) (simp_all add: apply_op_frame(1))

lemma run_compatible_client:
  "compatible_client c \<noteq> None \<Longrightarrow> compatible_client (run c ops) \<noteq> None"
  unfolding run_def
proof (induction ops arbitrary: c)
  case Nil
  then show ?case by simp
next
  case (Cons op ops)
  from Cons.prems have "compatible_client (apply_op c op) \<noteq> None"
    by (rule apply_op_frame(2))
  then show ?case
    using Cons.IH by simp
qed

text \<open>
  Claim C5. Take any session the constructor returns and any sequence of calls of its
  public methods on it. The configured init message of that session is present and not
  empty, so the fallback for an empty init message is never taken; \<open>clear_chat_history\<close>
  succeeds and leaves exactly one message in the history, whose content is the configured
  init message.
\<close>

theorem clear_chat_history_seed:
  assumes "new_chat_client sid params secret = Inr c0"
  shows "init_config_msg (connection_params (run c0 ops)) = init_config_msg params
         \<and> init_config_msg params \<noteq> None
         \<and> init_config_msg params \<noteq> Some []
         \<and> fst (clear_chat_history (run c0 ops)) = Inr ()
         \<and> length (chat_history (snd (clear_chat_history (run c0 ops)))) = 1
         \<and> map content (chat_history (snd (clear_chat_history (run c0 ops))))
             = [init_config_msg params]"
proof -
  let ?c = "run c0 ops"
  have params: "connection_params ?c = params"
    using run_connection_params new_chat_client_fields(4) [OF assms] by simp
  have "compatible_client ?c \<noteq> None"
    using run_compatible_client new_chat_client_fields(5) [OF assms] by simp
  then obtain cc where cc: "compatible_client ?c = Some cc"
    by auto
  from new_chat_client_init [OF assms] obtain init
    where init: "init_config_msg params = Some init" and ne: "init \<noteq> []"
    by (cases "init_config_msg params") auto
  have "clear_chat_history ?c =
          (Inr (), ?c\<lparr>chat_history := [create_message User (Some init) None]\<rparr>)"
    using cc params init ne by (simp add: clear_chat_history_def)
  then show ?thesis
    using params init ne by (simp add: create_message_def)
qed

text \<open>
  Witness for C5: the session created for \<open>GAMMA\<close>, after one message that failed; its
  init message is \<open>Be brief.\<close>
\<close>

theorem clear_chat_history_seed_witness:
  "fst (clear_chat_history (run gamma_session [Send_message failing_world ''ping''])) = Inr ()
   \<and> length (chat_history
        (snd (clear_chat_history (run gamma_session [Send_message failing_world ''ping''])))) = 1
   \<and> map content (chat_history
        (snd (clear_chat_history (run gamma_session [Send_message failing_world ''ping'']))))
       = [Some ''Be brief.'']"
proof -
  have made: "new_chat_client ''session_0'' gamma_params ''sk-gamma'' = Inr gamma_session"
    by code_simp
  have init: "init_config_msg gamma_params = Some ''Be brief.''"
    by (simp add: gamma_params_def)
  show ?thesis
    using clear_chat_history_seed [OF made, of "[Send_message failing_world ''ping'']"] init
    by simp
qed

lemma transport_close_calls_close:
  "transport_close_calls (transport_close t) = Suc (transport_close_calls t)"
  by (cases t) (simp_all add: transport_close_def transport_close_calls_def)

text \<open>
  Claim C9. On an open session the first \<open>close()\<close> marks the session closed, empties the
  history and runs the transport's \<open>close()\<close> at most once; a second \<open>close()\<close> changes
  nothing at all, so it raises nothing, prints nothing and does not reach the transport.
\<close>

theorem close_twice:
  assumes "\<not> is_closed c"
  shows "close (close c) = close c
         \<and> is_closed (close c)
         \<and> chat_history (close c) = []
         \<and> session_close_calls (close c) \<le> Suc (session_close_calls c)
         \<and> session_close_calls (close (close c)) = session_close_calls (close c)"
proof -
  have closed: "is_closed (close c)"
    using assms by (simp add: close_def)
  then have idem: "close (close c) = close c"
    by (simp add: close_def)
  have hist: "chat_history (close c) = []"
    using assms by (simp add: close_def)
  have calls: "session_close_calls (close c) \<le> Suc (session_close_calls c)"
    using assms
    by (simp add: close_def session_close_calls_def compatible_client_close_def
        transport_close_calls_close split: option.splits)
  show ?thesis
    using closed idem hist calls by simp
qed

text \<open>
  Witness for C9: the session on the REST transport; after two calls of \<open>close()\<close> its
  transport has been closed once.
\<close>

theorem close_twice_witness:
  "close (close rest_session) = close rest_session
   \<and> is_closed (close rest_session)
   \<and> chat_history (close rest_session) = []
   \<and> session_close_calls (close (close rest_session)) = 1"
proof -
  have o: "\<not> is_closed rest_session"
    by (simp add: rest_session_def)
  have n: "session_close_calls (close rest_session) = 1"
    by code_simp
  show ?thesis
    using close_twice [OF o] n by simp
qed

text \<open>
  Claim C10. Let the message be non-blank and the session have a bound client, and let
  \<open>r\<close> be the outcome of the transport call on the history with the user message
  appended. Then \<open>send_message\<close> returns \<open>None\<close> when the call raised and the first
  choice's content otherwise; the new history is the old one, then the user message, then
  the assistant message only when the call returned a non-empty content. In particular a
  failed send leaves the history longer by exactly one message.
\<close>

theorem failed_send_keeps_user_message:
  assumes "\<not> blank msg" and "compatible_client c = Some cc"
    and "chat_completion W cc (chat_history c @ [create_message User (Some msg) None]) = (r, cc')"
  shows "fst (send_message W c msg) = Inr (case r of Inl e \<Rightarrow> None | Inr resp \<Rightarrow> get_content resp)
         \<and> chat_history (snd (send_message W c msg)) =
             chat_history c @ [create_message User (Some msg) None]
             @ (case r of
                  Inl e \<Rightarrow> []
                | Inr resp \<Rightarrow>
                    (case get_content resp of
                       None \<Rightarrow> []
                     | Some s \<Rightarrow> if s = [] then [] else [create_message Assistant (Some s) None]))
         \<and> (isl r \<longrightarrow> fst (send_message W c msg) = Inr None
                      \<and> length (chat_history (snd (send_message W c msg)))
                          = Suc (length (chat_history c)))"
  using assms
  by (cases r) (auto simp: send_message_def Let_def split: option.splits)

text \<open>
  Witness for C10: the REST endpoint answers 500, the transport raises \<open>APIClientError\<close>,
  and the session that held one message holds two.
\<close>

theorem failed_send_keeps_user_message_witness:
  "fst (send_message failing_world rest_session ''hello'') = Inr None
   \<and> chat_history (snd (send_message failing_world rest_session ''hello'')) =
       [create_message User (Some ''ping'') None, create_message User (Some ''hello'') None]
   \<and> length (chat_history (snd (send_message failing_world rest_session ''hello''))) = 2"
proof -
  let ?history = "chat_history rest_session @ [create_message User (Some ''hello'') None]"
  have nb: "\<not> blank ''hello''"
    by code_simp
  have cc: "compatible_client rest_session = Some built_gamma_client"
    by (simp add: rest_session_def)
  have "fst (chat_completion failing_world built_gamma_client ?history) =
          Inl (Exn APIClientError ''API request failed with status 500: boom'')"
    by code_simp
  then have r: "chat_completion failing_world built_gamma_client ?history =
          (Inl (Exn APIClientError ''API request failed with status 500: boom''),
           snd (chat_completion failing_world built_gamma_client ?history))"
    by (metis prod.collapse)
  show ?thesis
    using failed_send_keeps_user_message [OF nb cc r] by (simp add: rest_session_def)
qed

end
